theory Spec2Isabelle
  imports Main "HOL-Library.Word"
begin

section \<open>JavaScript strings\<close>

text \<open>
  A JavaScript string is a sequence of 16-bit code units; \<^verbatim>\<open>.length\<close> counts code units
  and the empty string is the only falsy string.  String literals of the source are ASCII,
  so they are written as HOL string literals and converted unit by unit.
\<close>

type_synonym jsstring = "16 word list"

definition str :: "string \<Rightarrow> jsstring" where
  "str s = map of_char s"

text \<open>
  The code units that \<^verbatim>\<open>String.prototype.trim\<close> strips and that the regular-expression
  class \<^verbatim>\<open>\s\<close> matches: ECMAScript's WhiteSpace and LineTerminator productions
  (TAB, LF, VT, FF, CR, SP, NBSP, U+1680, U+2000..U+200A, U+2028, U+2029, U+202F, U+205F,
  U+3000, U+FEFF).  Both built-ins use the same set.
\<close>

definition isWhitespace :: "16 word \<Rightarrow> bool" where
  "isWhitespace c \<longleftrightarrow>
     c = 9 \<or> c = 10 \<or> c = 11 \<or> c = 12 \<or> c = 13 \<or> c = 32 \<or> c = 160 \<or> c = 5760 \<or>
     (8192 \<le> c \<and> c \<le> 8202) \<or>
     c = 8232 \<or> c = 8233 \<or> c = 8239 \<or> c = 8287 \<or> c = 12288 \<or> c = 65279"

definition trimStart :: "jsstring \<Rightarrow> jsstring" where
  "trimStart s = dropWhile isWhitespace s"

definition trimEnd :: "jsstring \<Rightarrow> jsstring" where
  "trimEnd s = rev (dropWhile isWhitespace (rev s))"

definition trim :: "jsstring \<Rightarrow> jsstring" where
  "trim s = trimEnd (trimStart s)"

section \<open>The regular expression of the e-mail check\<close>

text \<open>
  \<^verbatim>\<open>const emailRegex = /^[^\s@]+@[^\s@]+\.[^\s@]+$/;\<close>

  The pattern uses three constructs: a character class, a class under \<^verbatim>\<open>+\<close> and
  concatenation.  The matcher below is the backtracking matcher of the language: for a
  pattern and an input it lists the rests of the input after every way of matching a
  prefix, the greedy (longest) choice of each \<^verbatim>\<open>+\<close> first.
\<close>

datatype regex =
    Class "16 word \<Rightarrow> bool"
  | PlusClass "16 word \<Rightarrow> bool"
  | Seq regex regex

fun rests :: "regex \<Rightarrow> jsstring \<Rightarrow> jsstring list" where
  "rests (Class p) [] = []"
| "rests (Class p) (c # cs) = (if p c then [cs] else [])"
| "rests (PlusClass p) [] = []"
| "rests (PlusClass p) (c # cs) = (if p c then rests (PlusClass p) cs @ [cs] else [])"
| "rests (Seq r1 r2) s = concat (map (rests r2) (rests r1 s))"

text \<open>
  The pattern is anchored by \<^verbatim>\<open>^\<close> and \<^verbatim>\<open>$\<close> and has no flags, so
  \<^verbatim>\<open>regex.test(s)\<close> holds iff a match starts at index 0 and ends at the end of the input.
\<close>

definition test :: "regex \<Rightarrow> jsstring \<Rightarrow> bool" where
  "test r s \<longleftrightarrow> [] \<in> set (rests r s)"

definition notSpaceAt :: "16 word \<Rightarrow> bool" where
  "notSpaceAt c \<longleftrightarrow> \<not> isWhitespace c \<and> c \<noteq> of_char CHR ''@''"

definition emailRegex :: regex where
  "emailRegex =
     Seq (PlusClass notSpaceAt)
    (Seq (Class (\<lambda>c. c = of_char CHR ''@''))
    (Seq (PlusClass notSpaceAt)
    (Seq (Class (\<lambda>c. c = of_char CHR ''.''))
         (PlusClass notSpaceAt))))"

section \<open>The form validator\<close>

datatype field = Name | Email | Subject | Message

text \<open>
  \<^verbatim>\<open>validateField(name, value)\<close>: the error message of a field's value, the empty string
  when the value is accepted.  The \<^verbatim>\<open>default\<close> branch of the source's switch is excluded
  by the parameter type \<^verbatim>\<open>keyof FormData\<close>.
\<close>

fun validateField :: "field \<Rightarrow> jsstring \<Rightarrow> jsstring" where
  "validateField Name v =
     (if trim v = [] then str ''Name is required''
      else if length (trim v) < 2 then str ''Name must be at least 2 characters''
      else str '''')"
| "validateField Email v =
     (if trim v = [] then str ''Email is required''
      else if \<not> test emailRegex v then str ''Please enter a valid email address''
      else str '''')"
| "validateField Subject v =
     (if trim v = [] then str ''Subject is required''
      else if length (trim v) < 3 then str ''Subject must be at least 3 characters''
      else str '''')"
| "validateField Message v =
     (if trim v = [] then str ''Message is required''
      else if length (trim v) < 10 then str ''Message must be at least 10 characters''
      else str '''')"

section \<open>The state of the contact form\<close>

record FormData =
  name :: jsstring
  email :: jsstring
  subject :: jsstring
  message :: jsstring

text \<open>\<^verbatim>\<open>formData[field]\<close> and \<^verbatim>\<open>{ ...prev, [field]: value }\<close>.\<close>

fun getField :: "FormData \<Rightarrow> field \<Rightarrow> jsstring" where
  "getField d Name = name d"
| "getField d Email = email d"
| "getField d Subject = subject d"
| "getField d Message = FormData.message d"

fun setField :: "field \<Rightarrow> jsstring \<Rightarrow> FormData \<Rightarrow> FormData" where
  "setField Name v d = d\<lparr>name := v\<rparr>"
| "setField Email v d = d\<lparr>email := v\<rparr>"
| "setField Subject v d = d\<lparr>subject := v\<rparr>"
| "setField Message v d = d\<lparr>FormData.message := v\<rparr>"

definition emptyForm :: FormData where
  "emptyForm = \<lparr>name = str '''', email = str '''', subject = str '''', message = str ''''\<rparr>"

text \<open>
  \<^verbatim>\<open>interface FormErrors\<close>: every key is optional, so the object is a partial map from
  fields to strings.  A key that is present can hold the empty string.
\<close>

type_synonym FormErrors = "field \<rightharpoonup> jsstring"

text \<open>Truthiness of \<^verbatim>\<open>errors[field]\<close>: undefined and the empty string are falsy.\<close>

fun truthy :: "jsstring option \<Rightarrow> bool" where
  "truthy None = False"
| "truthy (Some m) = (m \<noteq> [])"

datatype status = Idle | Loading | Success | Error

record SubmissionState =
  status :: status
  message :: jsstring

text \<open>
  The component's three \<^verbatim>\<open>useState\<close> cells, and what the browser holds for it: the
  bodies of the \<^verbatim>\<open>fetch\<close> calls that have not settled, the due times (in milliseconds) of
  the \<^verbatim>\<open>setTimeout\<close> callbacks that have not run, and the clock.
\<close>

record state =
  formData :: FormData
  errors :: FormErrors
  submission :: SubmissionState
  requests :: "FormData list"
  timers :: "nat list"
  now :: nat

definition initial :: state where
  "initial = \<lparr>formData = emptyForm, errors = Map.empty,
     submission = \<lparr>status = Idle, message = str ''''\<rparr>,
     requests = [], timers = [], now = 0\<rparr>"

subsection \<open>validateForm\<close>

text \<open>\<^verbatim>\<open>Object.keys(formData)\<close>: the four keys, in the order of the object literal.\<close>

definition objectKeys :: "field list" where
  "objectKeys = [Name, Email, Subject, Message]"

text \<open>The body of the \<^verbatim>\<open>forEach\<close> callback, on the pair \<^verbatim>\<open>(newErrors, isValid)\<close>.\<close>

fun validateKey :: "FormData \<Rightarrow> field \<Rightarrow> FormErrors \<times> bool \<Rightarrow> FormErrors \<times> bool" where
  "validateKey d f (newErrors, isValid) =
     (let error = validateField f (getField d f)
      in if error \<noteq> [] then (newErrors(f \<mapsto> error), False) else (newErrors, isValid))"

definition collectErrors :: "FormData \<Rightarrow> FormErrors \<times> bool" where
  "collectErrors d = fold (validateKey d) objectKeys (Map.empty, True)"

text \<open>\<^verbatim>\<open>validateForm()\<close>: the state after \<^verbatim>\<open>setErrors(newErrors)\<close>, and the result.\<close>

definition validateForm :: "state \<Rightarrow> state \<times> bool" where
  "validateForm s =
     (case collectErrors (formData s) of
        (newErrors, isValid) \<Rightarrow> (s\<lparr>errors := newErrors\<rparr>, isValid))"

subsection \<open>handleInputChange\<close>

definition handleInputChange :: "field \<Rightarrow> jsstring \<Rightarrow> state \<Rightarrow> state" where
  "handleInputChange f v s =
     s\<lparr>formData := setField f v (formData s),
       errors := (if truthy (errors s f) then (errors s)(f \<mapsto> str '''') else errors s),
       submission := (if status (submission s) \<noteq> Idle
                      then \<lparr>status = Idle, message = str ''''\<rparr> else submission s)\<rparr>"

subsection \<open>handleSubmit\<close>

definition successMessage :: jsstring where
  "successMessage =
     str ''Thank you! Your message has been sent successfully. I'' @ [39] @
     str ''ll get back to you soon.''"

text \<open>
  The part of \<^verbatim>\<open>handleSubmit\<close> that runs before the \<^verbatim>\<open>await\<close>: validation, the loading
  state and the \<^verbatim>\<open>fetch\<close> call, whose body is the form data.
\<close>

definition handleSubmit :: "state \<Rightarrow> state" where
  "handleSubmit s =
     (case validateForm s of
        (s1, isValid) \<Rightarrow>
          if \<not> isValid then s1
          else s1\<lparr>submission := \<lparr>status = Loading, message = str ''''\<rparr>,
                  requests := requests s1 @ [formData s1]\<rparr>)"

text \<open>
  How a \<^verbatim>\<open>fetch\<close> settles: the promise rejects, or it resolves to a response with its
  \<^verbatim>\<open>ok\<close> flag and a body, which is not JSON or is an object with an optional
  \<^verbatim>\<open>message\<close>.
\<close>

datatype body = NotJson | Json "jsstring option"

datatype outcome = Rejected | Response bool body

datatype exn = TypeError | SyntaxError | ErrorMsg jsstring

text \<open>\<^verbatim>\<open>errorData.message || "Failed to send message"\<close>\<close>

fun messageOr :: "jsstring option \<Rightarrow> jsstring \<Rightarrow> jsstring" where
  "messageOr None d = d"
| "messageOr (Some m) d = (if m \<noteq> [] then m else d)"

text \<open>
  The rest of the \<^verbatim>\<open>try\<close> block, from the settled \<^verbatim>\<open>fetch\<close> on: the new state, or the
  exception that leaves the block.  No state is written on the paths that throw.
\<close>

fun tryBlock :: "outcome \<Rightarrow> state \<Rightarrow> exn + state" where
  "tryBlock Rejected s = Inl TypeError"
| "tryBlock (Response True b) s =
     Inr (s\<lparr>submission := \<lparr>status = Success, message = successMessage\<rparr>,
            formData := emptyForm,
            errors := Map.empty,
            timers := timers s @ [now s + 5000]\<rparr>)"
| "tryBlock (Response False NotJson) s = Inl SyntaxError"
| "tryBlock (Response False (Json m)) s =
     Inl (ErrorMsg (messageOr m (str ''Failed to send message'')))"

text \<open>
  The \<^verbatim>\<open>catch\<close> block.  Its comment reads "For demo purposes, simulate success since
  endpoint doesn't exist"; the assignment of the \<^verbatim>\<open>error\<close> status is commented out
  ("Uncomment below for actual error handling"), so the caught error is not used.
\<close>

definition catchBlock :: "exn \<Rightarrow> state \<Rightarrow> state" where
  "catchBlock e s =
     s\<lparr>submission := \<lparr>status = Success, message = successMessage\<rparr>,
       formData := emptyForm,
       errors := Map.empty,
       timers := timers s @ [now s + 5000]\<rparr>"

definition afterFetch :: "outcome \<Rightarrow> state \<Rightarrow> state" where
  "afterFetch r s = (case tryBlock r s of Inl e \<Rightarrow> catchBlock e s | Inr s' \<Rightarrow> s')"

text \<open>The callback of both \<^verbatim>\<open>setTimeout\<close> calls.\<close>

definition timerCallback :: "state \<Rightarrow> state" where
  "timerCallback s = s\<lparr>submission := \<lparr>status = Idle, message = str ''''\<rparr>\<rparr>"

subsection \<open>Events\<close>

text \<open>
  What can happen to the mounted component: a change event of one of the four inputs; a
  submit event of the form; the settling of the \<open>i\<close>-th outstanding \<^verbatim>\<open>fetch\<close>; the firing
  of the \<open>j\<close>-th pending timer, once it is due; time passing.  The submit button carries
  \<^verbatim>\<open>disabled={submission.status === "loading"}\<close>, and a form whose submit button is
  disabled is not submitted by the browser, so the submit event reaches
  \<^verbatim>\<open>handleSubmit\<close> only when the button is enabled.  The source never calls
  \<^verbatim>\<open>clearTimeout\<close>, so no event removes a timer but its own firing.
\<close>

datatype event =
    Change field jsstring
  | Submit
  | Settle nat outcome
  | Timeout nat
  | Wait nat

definition remove_nth :: "nat \<Rightarrow> 'a list \<Rightarrow> 'a list" where
  "remove_nth i xs = take i xs @ drop (Suc i) xs"

definition submitDisabled :: "state \<Rightarrow> bool" where
  "submitDisabled s \<longleftrightarrow> status (submission s) = Loading"

fun step :: "state \<Rightarrow> event \<Rightarrow> state" where
  "step s (Change f v) = handleInputChange f v s"
| "step s Submit = (if submitDisabled s then s else handleSubmit s)"
| "step s (Settle i r) =
     (if i < length (requests s)
      then afterFetch r (s\<lparr>requests := remove_nth i (requests s)\<rparr>) else s)"
| "step s (Timeout j) =
     (if j < length (timers s) \<and> timers s ! j \<le> now s
      then timerCallback (s\<lparr>timers := remove_nth j (timers s)\<rparr>) else s)"
| "step s (Wait d) = s\<lparr>now := now s + d\<rparr>"

fun run :: "state \<Rightarrow> event list \<Rightarrow> state" where
  "run s [] = s"
| "run s (e # es) = run (step s e) es"

section \<open>The theme hook\<close>

text \<open>
  The state \<^verbatim>\<open>useTheme\<close> works on: its \<^verbatim>\<open>useState\<close> cell, the browser's
  \<^verbatim>\<open>localStorage\<close> and the class list of \<^verbatim>\<open>document.documentElement\<close>.
\<close>

record theme =
  isDarkMode :: bool
  localStorage :: "jsstring \<rightharpoonup> jsstring"
  classList :: "jsstring set"

definition applyThemeToDOM :: "bool \<Rightarrow> theme \<Rightarrow> theme" where
  "applyThemeToDOM isDark t =
     (if isDark then t\<lparr>classList := (classList t \<union> {str ''dark''}) - {str ''light''}\<rparr>
      else t\<lparr>classList := (classList t \<union> {str ''light''}) - {str ''dark''}\<rparr>)"

text \<open>
  The effect that runs once on mount; \<open>window\<close> is whether
  \<^verbatim>\<open>typeof window !== "undefined"\<close>.  \<^verbatim>\<open>if (savedTheme)\<close> is a truthiness test: null and
  the empty string take the else branch.
\<close>

definition initialize :: "bool \<Rightarrow> theme \<Rightarrow> theme" where
  "initialize window t =
     (if window then
        (let savedTheme = localStorage t (str ''theme-preference'') in
         if truthy savedTheme then
           (let isDark = (savedTheme = Some (str ''dark''))
            in applyThemeToDOM isDark (t\<lparr>isDarkMode := isDark\<rparr>))
         else
           (let t1 = applyThemeToDOM True (t\<lparr>isDarkMode := True\<rparr>)
            in t1\<lparr>localStorage := (localStorage t1)(str ''theme-preference'' \<mapsto> str ''dark'')\<rparr>))
      else t)"

section \<open>The rules of the specification\<close>

text \<open>
  The specification's reading of the validator, to compare with \<open>validateField\<close>: a
  table of rules per field, evaluated in the order required, minimum length, format; the
  first failing rule gives the message.
\<close>

definition whitespaceOnly :: "jsstring \<Rightarrow> bool" where
  "whitespaceOnly v \<longleftrightarrow> list_all isWhitespace v"

fun requiredMessage :: "field \<Rightarrow> jsstring" where
  "requiredMessage Name = str ''Name is required''"
| "requiredMessage Email = str ''Email is required''"
| "requiredMessage Subject = str ''Subject is required''"
| "requiredMessage Message = str ''Message is required''"

fun minimumRule :: "field \<Rightarrow> (nat \<times> jsstring) option" where
  "minimumRule Name = Some (2, str ''Name must be at least 2 characters'')"
| "minimumRule Email = None"
| "minimumRule Subject = Some (3, str ''Subject must be at least 3 characters'')"
| "minimumRule Message = Some (10, str ''Message must be at least 10 characters'')"

text \<open>A part of an address: not empty, without whitespace and without an at sign.\<close>

definition part :: "jsstring \<Rightarrow> bool" where
  "part u \<longleftrightarrow> u \<noteq> [] \<and> list_all (\<lambda>c. \<not> isWhitespace c \<and> c \<noteq> of_char CHR ''@'') u"

definition localAtDomainTld :: "jsstring \<Rightarrow> bool" where
  "localAtDomainTld v \<longleftrightarrow>
     (\<exists>local domain tld. v = local @ str ''@'' @ domain @ str ''.'' @ tld \<and>
        part local \<and> part domain \<and> part tld)"

definition requiredError :: "field \<Rightarrow> jsstring \<Rightarrow> jsstring" where
  "requiredError f v = (if whitespaceOnly v then requiredMessage f else str '''')"

definition lengthError :: "field \<Rightarrow> jsstring \<Rightarrow> jsstring" where
  "lengthError f v =
     (case minimumRule f of
        None \<Rightarrow> str ''''
      | Some (n, msg) \<Rightarrow> if length (trim v) < n then msg else str '''')"

definition formatError :: "field \<Rightarrow> jsstring \<Rightarrow> jsstring" where
  "formatError f v =
     (if f = Email \<and> \<not> localAtDomainTld v then str ''Please enter a valid email address''
      else str '''')"

definition firstFailingRule :: "field \<Rightarrow> jsstring \<Rightarrow> jsstring" where
  "firstFailingRule f v =
     (if requiredError f v \<noteq> [] then requiredError f v
      else if lengthError f v \<noteq> [] then lengthError f v
      else formatError f v)"

text \<open>The words a pattern matches, for the proofs about the matcher.\<close>

fun lang :: "regex \<Rightarrow> jsstring set" where
  "lang (Class p) = {[c] | c. p c}"
| "lang (PlusClass p) = {u. u \<noteq> [] \<and> list_all p u}"
| "lang (Seq r1 r2) = {u @ v | u v. u \<in> lang r1 \<and> v \<in> lang r2}"

section \<open>Example sessions\<close>

text \<open>A form that passes validation, and the four change events that type it in.\<close>

definition validForm :: FormData where
  "validForm = \<lparr>name = str ''Al'', email = str ''a@b.co'', subject = str ''Hey'',
     message = str ''0123456789''\<rparr>"

definition fillForm :: "event list" where
  "fillForm = [Change Name (str ''Al''), Change Email (str ''a@b.co''),
     Change Subject (str ''Hey''), Change Message (str ''0123456789'')]"

text \<open>A submission that was accepted and is waiting for its response.\<close>

definition waiting :: state where
  "waiting = run initial (fillForm @ [Submit])"

text \<open>
  A second submission, typed in and sent one second after the first one succeeded, and
  waiting for its response when the first success is five seconds old.
\<close>

definition resumed :: state where
  "resumed = run initial
     (fillForm @ [Submit, Settle 0 (Response True NotJson), Wait 1000] @
      fillForm @ [Submit, Wait 4000])"

text \<open>The theme state of a first visit, and one whose stored preference is empty.\<close>

definition firstVisit :: theme where
  "firstVisit = \<lparr>isDarkMode = True, localStorage = Map.empty, classList = {}\<rparr>"

definition emptyPreference :: theme where
  "emptyPreference =
     \<lparr>isDarkMode = True, localStorage = [str ''theme-preference'' \<mapsto> str ''''],
      classList = {}\<rparr>"

definition lightPreference :: theme where
  "lightPreference =
     \<lparr>isDarkMode = True, localStorage = [str ''theme-preference'' \<mapsto> str ''light''],
      classList = {}\<rparr>"

section \<open>Trimming and matching\<close>

lemma trim_empty_iff: "trim v = [] \<longleftrightarrow> whitespaceOnly v"
proof -
  have "trim v = [] \<longleftrightarrow> (\<forall>c\<in>set (dropWhile isWhitespace v). isWhitespace c)"
    by (simp add: trim_def trimEnd_def trimStart_def dropWhile_eq_Nil_conv)
  also have "\<dots> \<longleftrightarrow> dropWhile isWhitespace v = []"
  proof
    assume all: "\<forall>c\<in>set (dropWhile isWhitespace v). isWhitespace c"
    show "dropWhile isWhitespace v = []"
    proof (rule ccontr)
      assume ne: "dropWhile isWhitespace v \<noteq> []"
      then have "\<not> isWhitespace (hd (dropWhile isWhitespace v))"
        by (rule hd_dropWhile)
      moreover from ne have "hd (dropWhile isWhitespace v) \<in> set (dropWhile isWhitespace v)"
        by simp
      ultimately show False using all by blast
    qed
  qed (auto dest: set_dropWhileD)
  also have "\<dots> \<longleftrightarrow> whitespaceOnly v"
    by (simp add: dropWhile_eq_Nil_conv whitespaceOnly_def list_all_iff)
  finally show ?thesis .
qed

lemma rests_Class: "t \<in> set (rests (Class p) s) \<longleftrightarrow> (\<exists>c. p c \<and> s = c # t)"
  by (cases s) auto

lemma rests_PlusClass:
  "t \<in> set (rests (PlusClass p) s) \<longleftrightarrow> (\<exists>u. u \<noteq> [] \<and> list_all p u \<and> s = u @ t)"
proof (induction s)
  case Nil
  show ?case by simp
next
  case (Cons c cs)
  show ?case
  proof (cases "p c")
    case False
    then show ?thesis by (auto simp: Cons_eq_append_conv)
  next
    case True
    have "(\<exists>u. u \<noteq> [] \<and> list_all p u \<and> c # cs = u @ t) \<longleftrightarrow>
          (t = cs \<or> (\<exists>u. u \<noteq> [] \<and> list_all p u \<and> cs = u @ t))"
    proof
      assume "\<exists>u. u \<noteq> [] \<and> list_all p u \<and> c # cs = u @ t"
      then obtain u where u: "u \<noteq> []" "list_all p u" "c # cs = u @ t" by blast
      then obtain u' where u': "u = c # u'" "cs = u' @ t"
        by (auto simp: Cons_eq_append_conv)
      show "t = cs \<or> (\<exists>u. u \<noteq> [] \<and> list_all p u \<and> cs = u @ t)"
      proof (cases "u' = []")
        case True
        with u' show ?thesis by simp
      next
        case False
        with u u' show ?thesis by auto
      qed
    next
      assume "t = cs \<or> (\<exists>u. u \<noteq> [] \<and> list_all p u \<and> cs = u @ t)"
      then show "\<exists>u. u \<noteq> [] \<and> list_all p u \<and> c # cs = u @ t"
      proof
        assume "t = cs"
        with True have "[c] \<noteq> [] \<and> list_all p [c] \<and> c # cs = [c] @ t" by simp
        then show ?thesis by blast
      next
        assume "\<exists>u. u \<noteq> [] \<and> list_all p u \<and> cs = u @ t"
        then obtain u where "u \<noteq> []" "list_all p u" "cs = u @ t" by blast
        with True have "c # u \<noteq> [] \<and> list_all p (c # u) \<and> c # cs = (c # u) @ t" by simp
        then show ?thesis by blast
      qed
    qed
    with True Cons.IH show ?thesis by auto
  qed
qed

lemma rests_lang: "t \<in> set (rests r s) \<longleftrightarrow> (\<exists>u\<in>lang r. s = u @ t)"
proof (induction r arbitrary: s t)
  case (Class p)
  show ?case by (auto simp: rests_Class)
next
  case (PlusClass p)
  show ?case by (auto simp: rests_PlusClass)
next
  case (Seq r1 r2)
  have "t \<in> set (rests (Seq r1 r2) s) \<longleftrightarrow> (\<exists>m\<in>set (rests r1 s). t \<in> set (rests r2 m))"
    by auto
  also have "\<dots> \<longleftrightarrow> (\<exists>m. (\<exists>u\<in>lang r1. s = u @ m) \<and> (\<exists>w\<in>lang r2. m = w @ t))"
    by (simp only: Bex_def Seq.IH)
  also have "\<dots> \<longleftrightarrow> (\<exists>u\<in>lang r1. \<exists>w\<in>lang r2. s = (u @ w) @ t)"
    by auto
  also have "\<dots> \<longleftrightarrow> (\<exists>u\<in>lang (Seq r1 r2). s = u @ t)"
    by (simp del: append_assoc) blast
  finally show ?case .
qed

lemma test_lang: "test r s \<longleftrightarrow> s \<in> lang r"
  by (simp add: test_def rests_lang)

lemma lang_PlusClass_notSpaceAt: "u \<in> lang (PlusClass notSpaceAt) \<longleftrightarrow> part u"
  by (simp add: part_def notSpaceAt_def [abs_def])

lemma lang_one: "u \<in> lang (Class (\<lambda>c. c = k)) \<longleftrightarrow> u = [k]"
  by auto

lemma lang_Seq: "x \<in> lang (Seq r1 r2) \<longleftrightarrow> (\<exists>u v. x = u @ v \<and> u \<in> lang r1 \<and> v \<in> lang r2)"
  by auto

lemma test_emailRegex: "test emailRegex v \<longleftrightarrow> localAtDomainTld v"
  unfolding test_lang emailRegex_def localAtDomainTld_def lang_Seq lang_one
    lang_PlusClass_notSpaceAt
  by (simp add: str_def) blast

lemma localAtDomainTld_no_whitespace:
  assumes "localAtDomainTld v" and "c \<in> set v"
  shows "\<not> isWhitespace c"
proof -
  from assms(1) obtain l d t where v: "v = l @ str ''@'' @ d @ str ''.'' @ t"
    and p: "part l" "part d" "part t"
    unfolding localAtDomainTld_def by blast
  from assms(2) v have "c \<in> set l \<or> c = 64 \<or> c \<in> set d \<or> c = 46 \<or> c \<in> set t"
    by (auto simp: str_def)
  moreover have "\<not> isWhitespace 64" "\<not> isWhitespace 46"
    by (simp_all add: isWhitespace_def)
  ultimately show ?thesis
    using p by (auto simp: part_def list_all_iff)
qed

lemmas string_defs = str_def isWhitespace_def trim_def trimStart_def trimEnd_def
  test_def emailRegex_def notSpaceAt_def

section \<open>The validator against the rules\<close>

lemma validateField_rules: "validateField f v = firstFailingRule f v"
  by (cases f)
    (simp_all add: firstFailingRule_def requiredError_def lengthError_def formatError_def
      trim_empty_iff test_emailRegex str_def)

text \<open>
  C3: \<open>validateField\<close> is the rules table with the first failing rule winning: the
  required message for an empty or whitespace-only value, else the length message for a
  name, subject or message whose trimmed length is below 2, 3 or 10, else the format
  message for an email that does not have the shape local@domain.tld, else no error; and
  the address a@b.co passes.
\<close>

theorem validateField_first_failing_rule:
  "validateField f v = firstFailingRule f v \<and> validateField Email (str ''a@b.co'') = str ''''"
proof (rule conjI)
  show "validateField f v = firstFailingRule f v"
    by (rule validateField_rules)
next
  show "validateField Email (str ''a@b.co'') = str ''''"
    by (simp add: string_defs)
qed

theorem validateField_first_failing_rule_witness:
  "firstFailingRule Name (str '' A '') = str ''Name must be at least 2 characters'' \<and>
   firstFailingRule Email (str ''a@b'') = str ''Please enter a valid email address'' \<and>
   firstFailingRule Message (str ''   '') = str ''Message is required'' \<and>
   firstFailingRule Subject (str ''Hey'') = str ''''"
  using validateField_first_failing_rule [of Name "str '' A ''"]
    validateField_first_failing_rule [of Email "str ''a@b''"]
    validateField_first_failing_rule [of Message "str ''   ''"]
    validateField_first_failing_rule [of Subject "str ''Hey''"]
  by (simp add: string_defs)

text \<open>
  C10: the format check of the email field reads the raw value: a value that is not
  whitespace-only but contains a whitespace unit gets the format message; so does the
  address a@b.co with a space on each side, although its trimmed form matches the pattern.
\<close>

theorem email_format_checks_raw_value:
  "(\<not> whitespaceOnly v \<and> (\<exists>c\<in>set v. isWhitespace c) \<longrightarrow>
      validateField Email v = str ''Please enter a valid email address'') \<and>
   validateField Email (str '' a@b.co '') = str ''Please enter a valid email address'' \<and>
   test emailRegex (trim (str '' a@b.co ''))"
proof (intro conjI impI)
  assume a: "\<not> whitespaceOnly v \<and> (\<exists>c\<in>set v. isWhitespace c)"
  then have "\<not> localAtDomainTld v"
    using localAtDomainTld_no_whitespace by blast
  with a show "validateField Email v = str ''Please enter a valid email address''"
    by (simp add: trim_empty_iff test_emailRegex)
next
  show "validateField Email (str '' a@b.co '') = str ''Please enter a valid email address''"
    by (simp add: string_defs)
next
  show "test emailRegex (trim (str '' a@b.co ''))"
    by (simp add: string_defs)
qed

theorem email_format_checks_raw_value_witness:
  "\<not> whitespaceOnly (str ''a b@c.de'') \<and> (\<exists>c\<in>set (str ''a b@c.de''). isWhitespace c) \<and>
   validateField Email (str ''a b@c.de'') = str ''Please enter a valid email address''"
proof -
  have h: "\<not> whitespaceOnly (str ''a b@c.de'') \<and> (\<exists>c\<in>set (str ''a b@c.de''). isWhitespace c)"
    by (simp add: whitespaceOnly_def str_def isWhitespace_def)
  with email_format_checks_raw_value [of "str ''a b@c.de''"] show ?thesis
    by blast
qed

section \<open>validateForm\<close>

lemma fold_validateKey:
  "fold (validateKey d) fs (m, b) =
     ((\<lambda>f. if f \<in> set fs \<and> validateField f (getField d f) \<noteq> []
            then Some (validateField f (getField d f)) else m f),
      b \<and> (\<forall>f\<in>set fs. validateField f (getField d f) = []))"
  by (induction fs arbitrary: m b) (auto simp: Let_def fun_eq_iff)

lemma set_objectKeys: "set objectKeys = UNIV"
proof -
  have "f \<in> set objectKeys" for f
    by (cases f) (simp_all add: objectKeys_def)
  then show ?thesis by blast
qed

lemma collectErrors_eq:
  "collectErrors d =
     ((\<lambda>f. if validateField f (getField d f) \<noteq> []
            then Some (validateField f (getField d f)) else None),
      \<forall>f. validateField f (getField d f) = [])"
  by (simp add: collectErrors_def fold_validateKey set_objectKeys)

lemma all_fields: "(\<forall>f. P f) \<longleftrightarrow> P Name \<and> P Email \<and> P Subject \<and> P Message"
proof
  assume r: "P Name \<and> P Email \<and> P Subject \<and> P Message"
  show "\<forall>f. P f"
  proof
    fix f show "P f" using r by (cases f) simp_all
  qed
qed simp

lemma validateForm_eq:
  "validateForm s =
     (s\<lparr>errors := (\<lambda>f. if validateField f (getField (formData s) f) \<noteq> []
                        then Some (validateField f (getField (formData s) f)) else None)\<rparr>,
      \<forall>f. validateField f (getField (formData s) f) = [])"
  by (simp add: validateForm_def collectErrors_eq)

text \<open>
  C2: \<open>validateForm\<close> returns true iff each of the four fields passes \<open>validateField\<close>;
  the error map it installs has exactly the invalid fields as keys, each with its message,
  so it is empty iff the form is valid; and it replaces the previous map whole, changing
  nothing else of the state.
\<close>

theorem validateForm_exact:
  "(snd (validateForm s) \<longleftrightarrow>
      validateField Name (name (formData s)) = [] \<and>
      validateField Email (email (formData s)) = [] \<and>
      validateField Subject (subject (formData s)) = [] \<and>
      validateField Message (FormData.message (formData s)) = []) \<and>
   dom (errors (fst (validateForm s))) = {f. validateField f (getField (formData s) f) \<noteq> []} \<and>
   (\<forall>f. errors (fst (validateForm s)) f \<noteq> None \<longrightarrow>
      errors (fst (validateForm s)) f = Some (validateField f (getField (formData s) f))) \<and>
   (errors (fst (validateForm s)) = Map.empty \<longleftrightarrow> snd (validateForm s)) \<and>
   fst (validateForm s) = s\<lparr>errors := errors (fst (validateForm s))\<rparr> \<and>
   errors (fst (validateForm (s\<lparr>errors := old\<rparr>))) = errors (fst (validateForm s))"
proof (intro conjI)
  show "snd (validateForm s) \<longleftrightarrow>
      validateField Name (name (formData s)) = [] \<and>
      validateField Email (email (formData s)) = [] \<and>
      validateField Subject (subject (formData s)) = [] \<and>
      validateField Message (FormData.message (formData s)) = []"
    by (simp add: validateForm_eq all_fields)
next
  show "dom (errors (fst (validateForm s))) =
      {f. validateField f (getField (formData s) f) \<noteq> []}"
    by (auto simp: validateForm_eq dom_def)
next
  show "\<forall>f. errors (fst (validateForm s)) f \<noteq> None \<longrightarrow>
      errors (fst (validateForm s)) f = Some (validateField f (getField (formData s) f))"
    by (simp add: validateForm_eq)
next
  show "errors (fst (validateForm s)) = Map.empty \<longleftrightarrow> snd (validateForm s)"
    by (auto simp: validateForm_eq fun_eq_iff)
next
  show "fst (validateForm s) = s\<lparr>errors := errors (fst (validateForm s))\<rparr>"
    by (simp add: validateForm_eq)
next
  show "errors (fst (validateForm (s\<lparr>errors := old\<rparr>))) = errors (fst (validateForm s))"
    by (simp add: validateForm_eq cong: if_cong)
qed

lemma run_append: "run s (es @ es') = run (run s es) es'"
  by (induction es arbitrary: s) simp_all

lemma run_fillForm: "run initial fillForm = initial\<lparr>formData := validForm\<rparr>"
  by (simp add: fillForm_def initial_def handleInputChange_def emptyForm_def validForm_def)

lemma validForm_valid: "validateField f (getField validForm f) = []"
  by (cases f) (simp_all add: validForm_def string_defs)

lemma emptyForm_invalid: "validateField f (getField emptyForm f) = requiredMessage f"
  by (cases f) (simp_all add: emptyForm_def string_defs)

lemma requiredMessage_nonempty: "requiredMessage f \<noteq> []"
  by (cases f) (simp_all add: str_def)

theorem validateForm_exact_witness:
  "snd (validateForm (initial\<lparr>formData := validForm\<rparr>)) \<and>
   errors (fst (validateForm (initial\<lparr>formData := validForm\<rparr>))) = Map.empty \<and>
   \<not> snd (validateForm initial) \<and>
   errors (fst (validateForm initial)) \<noteq> Map.empty \<and>
   dom (errors (fst (validateForm (initial\<lparr>formData := validForm\<lparr>name := str ''A''\<rparr>\<rparr>)))) =
     {Name}"
proof -
  have v: "validateField Name (name validForm) = []"
    "validateField Email (email validForm) = []"
    "validateField Subject (subject validForm) = []"
    "validateField Message (FormData.message validForm) = []"
    using validForm_valid [of Name] validForm_valid [of Email] validForm_valid [of Subject]
      validForm_valid [of Message] by simp_all
  have e: "validateField Name (name emptyForm) \<noteq> []"
    using emptyForm_invalid [of Name] by (simp add: str_def)
  have i: "formData initial = emptyForm"
    by (simp add: initial_def)
  have "validateField f (getField (validForm\<lparr>name := str ''A''\<rparr>) f) \<noteq> [] \<longleftrightarrow> f = Name" for f
    using validForm_valid [of f] by (cases f) (simp_all add: string_defs)
  then have d: "{f. validateField f (getField (validForm\<lparr>name := str ''A''\<rparr>) f) \<noteq> []} = {Name}"
    by simp
  from validateForm_exact [of "initial\<lparr>formData := validForm\<rparr>"] v
  have "snd (validateForm (initial\<lparr>formData := validForm\<rparr>)) \<and>
    errors (fst (validateForm (initial\<lparr>formData := validForm\<rparr>))) = Map.empty"
    by simp
  moreover from validateForm_exact [of initial] e i
  have "\<not> snd (validateForm initial) \<and> errors (fst (validateForm initial)) \<noteq> Map.empty"
    by simp
  moreover from validateForm_exact [of "initial\<lparr>formData := validForm\<lparr>name := str ''A''\<rparr>\<rparr>"] d
  have "dom (errors (fst (validateForm (initial\<lparr>formData := validForm\<lparr>name := str ''A''\<rparr>\<rparr>)))) =
    {Name}"
    by simp
  ultimately show ?thesis by simp
qed

section \<open>Editing a field\<close>

lemma getField_setField: "getField (setField g v d) f = (if f = g then v else getField d f)"
  by (cases g; cases f) simp_all

text \<open>
  C7: a change event of a field leaves that field without a displayed error, leaves the
  error-map entry of every other field as it was and, when the status is not idle, sets the
  submission state to idle with an empty message at once; the pending timers and the clock
  play no part and are not touched.
\<close>

theorem change_clears_own_error_only:
  "getField (formData (step s (Change f v))) f = v \<and>
   \<not> truthy (errors (step s (Change f v)) f) \<and>
   (\<forall>g. g \<noteq> f \<longrightarrow> errors (step s (Change f v)) g = errors s g \<and>
      getField (formData (step s (Change f v))) g = getField (formData s) g) \<and>
   (status (submission s) \<noteq> Idle \<longrightarrow>
      submission (step s (Change f v)) = \<lparr>status = Idle, message = str ''''\<rparr>) \<and>
   (status (submission s) = Idle \<longrightarrow> submission (step s (Change f v)) = submission s) \<and>
   timers (step s (Change f v)) = timers s \<and>
   now (step s (Change f v)) = now s \<and>
   requests (step s (Change f v)) = requests s"
  by (cases "errors s f") (simp_all add: handleInputChange_def getField_setField str_def)

lemma waiting_eq:
  "waiting = initial\<lparr>formData := validForm,
     submission := \<lparr>status = Loading, message = str ''''\<rparr>, requests := [validForm]\<rparr>"
proof -
  have "waiting = step (initial\<lparr>formData := validForm\<rparr>) Submit"
    by (simp add: waiting_def run_append run_fillForm)
  then show ?thesis
    by (simp add: submitDisabled_def handleSubmit_def validateForm_eq validForm_valid
        initial_def)
qed

theorem change_clears_own_error_only_witness:
  "errors (step (fst (validateForm initial)) (Change Name (str ''A''))) Name = Some [] \<and>
   errors (step (fst (validateForm initial)) (Change Name (str ''A''))) Email =
     Some (str ''Email is required'') \<and>
   submission (step waiting (Change Name (str ''Bo''))) = \<lparr>status = Idle, message = []\<rparr>"
proof -
  have e: "errors (fst (validateForm initial)) =
      (\<lambda>f. Some (requiredMessage f))"
    by (simp add: validateForm_eq initial_def emptyForm_invalid requiredMessage_nonempty)
  have w: "status (submission waiting) = Loading"
    by (simp add: waiting_eq)
  have "errors (step (fst (validateForm initial)) (Change Name (str ''A''))) Name = Some []"
    by (simp add: handleInputChange_def e requiredMessage_nonempty str_def)
  moreover from change_clears_own_error_only [of "fst (validateForm initial)" Name "str ''A''"]
  have "errors (step (fst (validateForm initial)) (Change Name (str ''A''))) Email =
      Some (str ''Email is required'')"
    by (simp add: e)
  moreover from change_clears_own_error_only [of waiting Name "str ''Bo''"] w
  have "submission (step waiting (Change Name (str ''Bo''))) = \<lparr>status = Idle, message = []\<rparr>"
    by (simp add: str_def)
  ultimately show ?thesis by simp
qed

section \<open>Submitting\<close>

text \<open>Every way a request can settle ends in the same assignments.\<close>

lemma afterFetch_eq:
  "afterFetch r s =
     s\<lparr>submission := \<lparr>status = Success, message = successMessage\<rparr>,
       formData := emptyForm,
       errors := Map.empty,
       timers := timers s @ [now s + 5000]\<rparr>"
  by (cases "(r, s)" rule: tryBlock.cases) (simp_all add: afterFetch_def catchBlock_def)

text \<open>Whenever the status is loading, a request is outstanding.\<close>

lemma loading_has_request_step:
  assumes "status (submission s) = Loading \<longrightarrow> requests s \<noteq> []"
  shows "status (submission (step s e)) = Loading \<longrightarrow> requests (step s e) \<noteq> []"
proof (cases e)
  case (Change f v)
  then show ?thesis by (simp add: handleInputChange_def)
next
  case Submit
  with assms show ?thesis
    by (simp add: submitDisabled_def handleSubmit_def validateForm_eq)
next
  case (Settle i r)
  with assms show ?thesis by (simp add: afterFetch_eq)
next
  case (Timeout j)
  with assms show ?thesis by (simp add: timerCallback_def)
next
  case (Wait d)
  with assms show ?thesis by simp
qed

lemma loading_has_request_run:
  "status (submission s) = Loading \<longrightarrow> requests s \<noteq> [] \<Longrightarrow>
   status (submission (run s es)) = Loading \<longrightarrow> requests (run s es) \<noteq> []"
proof (induction es arbitrary: s)
  case Nil
  then show ?case by simp
next
  case (Cons e es)
  from Cons.prems have "status (submission (step s e)) = Loading \<longrightarrow> requests (step s e) \<noteq> []"
    by (rule loading_has_request_step)
  then have "status (submission (run (step s e) es)) = Loading \<longrightarrow>
      requests (run (step s e) es) \<noteq> []"
    by (rule Cons.IH)
  then show ?case by simp
qed

text \<open>
  C6, as the code has it: while the status is loading the submit button is disabled, so
  a submit event changes nothing: the state, and with it the list of outstanding requests,
  is the same.  That is the only guard.  With any other status a submit event runs
  \<open>handleSubmit\<close>: on a valid form it issues one more request, whose body is the form
  data, and sets the status to loading; on an invalid form it issues none and leaves the
  submission state.  \<open>handleSubmit\<close> itself issues a request for a valid form whatever
  the status is.  In every state the component can reach, a loading status means that a
  request is outstanding; an outstanding request does not mean that the status is loading.
\<close>

theorem submit_guard_follows_status:
  "(status (submission s) = Loading \<longrightarrow> step s Submit = s) \<and>
   (status (submission s) \<noteq> Loading \<and> (\<forall>f. validateField f (getField (formData s) f) = []) \<longrightarrow>
      requests (step s Submit) = requests s @ [formData s] \<and>
      submission (step s Submit) = \<lparr>status = Loading, message = str ''''\<rparr>) \<and>
   (status (submission s) \<noteq> Loading \<and> (\<exists>f. validateField f (getField (formData s) f) \<noteq> []) \<longrightarrow>
      requests (step s Submit) = requests s \<and>
      submission (step s Submit) = submission s) \<and>
   ((\<forall>f. validateField f (getField (formData s) f) = []) \<longrightarrow>
      requests (handleSubmit s) = requests s @ [formData s]) \<and>
   (status (submission (run initial es)) = Loading \<longrightarrow> requests (run initial es) \<noteq> [])"
proof (intro conjI)
  show "status (submission s) = Loading \<longrightarrow> step s Submit = s"
    by (simp add: submitDisabled_def)
next
  show "status (submission s) \<noteq> Loading \<and> (\<forall>f. validateField f (getField (formData s) f) = []) \<longrightarrow>
      requests (step s Submit) = requests s @ [formData s] \<and>
      submission (step s Submit) = \<lparr>status = Loading, message = str ''''\<rparr>"
    by (simp add: submitDisabled_def handleSubmit_def validateForm_eq)
next
  show "status (submission s) \<noteq> Loading \<and> (\<exists>f. validateField f (getField (formData s) f) \<noteq> []) \<longrightarrow>
      requests (step s Submit) = requests s \<and>
      submission (step s Submit) = submission s"
    by (simp add: submitDisabled_def handleSubmit_def validateForm_eq)
next
  show "(\<forall>f. validateField f (getField (formData s) f) = []) \<longrightarrow>
      requests (handleSubmit s) = requests s @ [formData s]"
    by (simp add: handleSubmit_def validateForm_eq)
next
  show "status (submission (run initial es)) = Loading \<longrightarrow> requests (run initial es) \<noteq> []"
    by (rule loading_has_request_run) (simp add: initial_def)
qed

lemma validForm_Bob_valid:
  "validateField f (getField (validForm\<lparr>name := str ''Bob''\<rparr>) f) = []"
  using validForm_valid [of f] by (cases f) (simp_all add: string_defs)

theorem submit_guard_follows_status_witness:
  "status (submission waiting) = Loading \<and> requests waiting = [validForm] \<and>
   step waiting Submit = waiting \<and>
   requests (step (initial\<lparr>formData := validForm\<rparr>) Submit) = [validForm] \<and>
   submission (step (initial\<lparr>formData := validForm\<rparr>) Submit) =
     \<lparr>status = Loading, message = []\<rparr> \<and>
   requests (step initial Submit) = [] \<and>
   submission (step initial Submit) = \<lparr>status = Idle, message = []\<rparr> \<and>
   requests (handleSubmit waiting) = [validForm, validForm] \<and>
   requests (run initial (fillForm @ [Submit])) \<noteq> []"
proof -
  have w: "status (submission waiting) = Loading" "requests waiting = [validForm]"
    "formData waiting = validForm"
    by (simp_all add: waiting_eq)
  have v: "status (submission (initial\<lparr>formData := validForm\<rparr>)) \<noteq> Loading"
    "requests (initial\<lparr>formData := validForm\<rparr>) = []"
    "submission initial = \<lparr>status = Idle, message = []\<rparr>"
    "status (submission initial) \<noteq> Loading" "requests initial = []"
    by (simp_all add: initial_def str_def)
  have e: "\<exists>f. validateField f (getField (formData initial) f) \<noteq> []"
    using emptyForm_invalid requiredMessage_nonempty by (simp add: initial_def)
  have r: "status (submission (run initial (fillForm @ [Submit]))) = Loading"
    using w(1) by (simp add: waiting_def)
  from submit_guard_follows_status [of waiting "[]"] w validForm_valid
  have "step waiting Submit = waiting \<and> requests (handleSubmit waiting) = [validForm, validForm]"
    by simp
  moreover from submit_guard_follows_status [of "initial\<lparr>formData := validForm\<rparr>" "[]"] v
    validForm_valid
  have "requests (step (initial\<lparr>formData := validForm\<rparr>) Submit) = [validForm] \<and>
    submission (step (initial\<lparr>formData := validForm\<rparr>) Submit) =
      \<lparr>status = Loading, message = []\<rparr>"
    by (simp add: str_def)
  moreover from submit_guard_follows_status [of initial "[]"] v e
  have "requests (step initial Submit) = [] \<and>
    submission (step initial Submit) = \<lparr>status = Idle, message = []\<rparr>"
    by simp
  moreover from submit_guard_follows_status [of initial "fillForm @ [Submit]"] r
  have "requests (run initial (fillForm @ [Submit])) \<noteq> []"
    by simp
  ultimately show ?thesis using w by simp
qed

text \<open>
  C6, as the claim has it, fails.  While the first request is outstanding and the status
  is loading, running \<open>handleSubmit\<close> issues a second request.  And through the page: an
  edit during loading sets the status to idle, which enables the button again, and the
  next submit event issues a second request while the first is still outstanding.
\<close>

theorem second_request_while_pending_counterexample:
  "status (submission waiting) = Loading \<and> requests waiting = [validForm] \<and>
   requests (handleSubmit waiting) = [validForm, validForm] \<and>
   status (submission (step waiting (Change Name (str ''Bob'')))) = Idle \<and>
   requests (step waiting (Change Name (str ''Bob''))) = [validForm] \<and>
   requests (run waiting [Change Name (str ''Bob''), Submit]) =
     [validForm, validForm\<lparr>name := str ''Bob''\<rparr>] \<and>
   status (submission (run waiting [Change Name (str ''Bob''), Submit])) = Loading"
proof -
  have c: "step waiting (Change Name (str ''Bob'')) =
      initial\<lparr>formData := validForm\<lparr>name := str ''Bob''\<rparr>, requests := [validForm]\<rparr>"
    by (simp add: waiting_eq handleInputChange_def initial_def)
  have h: "requests (handleSubmit waiting) = [validForm, validForm]"
    by (simp add: waiting_eq handleSubmit_def validateForm_eq validForm_valid)
  have s: "step (initial\<lparr>formData := validForm\<lparr>name := str ''Bob''\<rparr>, requests := [validForm]\<rparr>)
        Submit =
      initial\<lparr>formData := validForm\<lparr>name := str ''Bob''\<rparr>,
        submission := \<lparr>status = Loading, message = str ''''\<rparr>,
        requests := [validForm, validForm\<lparr>name := str ''Bob''\<rparr>]\<rparr>"
    by (simp add: submitDisabled_def handleSubmit_def validateForm_eq validForm_Bob_valid
        initial_def)
  have r: "run waiting [Change Name (str ''Bob''), Submit] =
      step (step waiting (Change Name (str ''Bob''))) Submit"
    by simp
  show ?thesis
    unfolding r c s using h by (simp add: waiting_eq initial_def)
qed

text \<open>
  C8: when an outstanding request resolves with an OK response, the form data is reset to
  four empty strings, the error map is empty and the submission state is success with the
  success message.
\<close>

theorem ok_response_resets_form:
  "i < length (requests s) \<Longrightarrow>
   formData (step s (Settle i (Response True b))) =
     \<lparr>name = [], email = [], subject = [], message = []\<rparr> \<and>
   errors (step s (Settle i (Response True b))) = Map.empty \<and>
   submission (step s (Settle i (Response True b))) =
     \<lparr>status = Success, message = successMessage\<rparr>"
  by (simp add: afterFetch_def emptyForm_def str_def)

theorem ok_response_resets_form_witness:
  "status (submission waiting) = Loading \<and> formData waiting = validForm \<and>
   formData (step waiting (Settle 0 (Response True NotJson))) =
     \<lparr>name = [], email = [], subject = [], message = []\<rparr> \<and>
   errors (step waiting (Settle 0 (Response True NotJson))) = Map.empty \<and>
   submission (step waiting (Settle 0 (Response True NotJson))) =
     \<lparr>status = Success, message = successMessage\<rparr>"
proof -
  have w: "0 < length (requests waiting)" "status (submission waiting) = Loading"
    "formData waiting = validForm"
    by (simp_all add: waiting_eq)
  from ok_response_resets_form [OF w(1), of NotJson] w show ?thesis by simp
qed

section \<open>Errors shown and the values they are about\<close>

text \<open>
  The invariant of the error map: a field with a non-empty error message holds a value
  that fails \<open>validateField\<close>.
\<close>

lemma no_stale_error_step:
  assumes inv: "\<And>f. truthy (errors s f) \<Longrightarrow> validateField f (getField (formData s) f) \<noteq> []"
    and t: "truthy (errors (step s e) f)"
  shows "validateField f (getField (formData (step s e)) f) \<noteq> []"
proof (cases e)
  case (Change g v)
  show ?thesis
  proof (cases "f = g")
    case True
    with t Change show ?thesis
      by (cases "errors s g") (simp_all add: handleInputChange_def str_def split: if_splits)
  next
    case False
    with t Change have "truthy (errors s f)"
      by (simp add: handleInputChange_def split: if_splits)
    then have "validateField f (getField (formData s) f) \<noteq> []" by (rule inv)
    with False Change show ?thesis
      by (simp add: handleInputChange_def getField_setField)
  qed
next
  case Submit
  show ?thesis
  proof (cases "submitDisabled s")
    case True
    with t Submit inv show ?thesis by simp
  next
    case False
    with t Submit show ?thesis
      by (auto simp: handleSubmit_def validateForm_eq split: if_splits)
  qed
next
  case (Settle i r)
  show ?thesis
  proof (cases "i < length (requests s)")
    case True
    with t Settle show ?thesis
      by (simp add: afterFetch_eq)
  next
    case False
    with t Settle inv show ?thesis by simp
  qed
next
  case (Timeout j)
  with t inv show ?thesis
    by (simp add: timerCallback_def split: if_splits)
next
  case (Wait d)
  with t inv show ?thesis by simp
qed

lemma no_stale_error_run:
  assumes "\<And>f. truthy (errors s f) \<Longrightarrow> validateField f (getField (formData s) f) \<noteq> []"
    and "truthy (errors (run s es) f)"
  shows "validateField f (getField (formData (run s es)) f) \<noteq> []"
  using assms
proof (induction es arbitrary: s f)
  case Nil
  then show ?case by simp
next
  case (Cons e es)
  show ?case
    unfolding run.simps
  proof (rule Cons.IH)
    fix g assume "truthy (errors (step s e) g)"
    then show "validateField g (getField (formData (step s e)) g) \<noteq> []"
      using Cons.prems(1) no_stale_error_step by blast
  next
    from Cons.prems(2) show "truthy (errors (run (step s e) es) f)" by simp
  qed
qed

text \<open>
  C4, as the code has it: in every state the component can reach, a field with a
  non-empty error message holds a value that fails \<open>validateField\<close>, so no error is
  displayed for a value that would pass.  (A key of the error map can be present with the
  empty string, which is displayed as no error.)
\<close>

theorem no_stale_error_displayed:
  "truthy (errors (run initial es) f) \<Longrightarrow>
   validateField f (getField (formData (run initial es)) f) \<noteq> []"
proof (rule no_stale_error_run)
  fix g assume "truthy (errors initial g)"
  then show "validateField g (getField (formData initial) g) \<noteq> []"
    by (simp add: initial_def)
qed

lemma after_empty_submit:
  "run initial [Submit] = initial\<lparr>errors := (\<lambda>f. Some (requiredMessage f))\<rparr>"
proof -
  have "handleSubmit initial = initial\<lparr>errors := (\<lambda>f. Some (requiredMessage f))\<rparr>"
    unfolding handleSubmit_def validateForm_eq
    by (simp add: initial_def emptyForm_invalid requiredMessage_nonempty)
  moreover have "\<not> submitDisabled initial"
    by (simp add: submitDisabled_def initial_def)
  ultimately show ?thesis by simp
qed

theorem no_stale_error_displayed_witness:
  "truthy (errors (run initial [Submit]) Name) \<and>
   validateField Name (getField (formData (run initial [Submit])) Name) \<noteq> []"
proof -
  have t: "truthy (errors (run initial [Submit]) Name)"
    unfolding after_empty_submit by (simp add: str_def)
  from no_stale_error_displayed [OF t] t show ?thesis by simp
qed

text \<open>
  C4, as the claim has it, fails: after an empty form is submitted and the name is
  corrected, the error map still has the key of the name (with the empty string) while
  the name passes validation.
\<close>

theorem stale_error_key_counterexample:
  "errors (run initial [Submit, Change Name (str ''Al'')]) Name = Some [] \<and>
   Name \<in> dom (errors (run initial [Submit, Change Name (str ''Al'')])) \<and>
   validateField Name (getField (formData (run initial [Submit, Change Name (str ''Al'')])) Name)
     = []"
proof -
  have "run initial [Submit, Change Name (str ''Al'')] =
      step (run initial [Submit]) (Change Name (str ''Al''))"
    by simp
  then show ?thesis
    unfolding after_empty_submit
    by (simp add: handleInputChange_def initial_def emptyForm_def string_defs)
qed

section \<open>The auto-hide timer\<close>

text \<open>
  C5, as the code has it: a request that settles puts the controller in the success state
  and schedules one timer, due 5000 ms later.  No change or submit event removes a pending
  timer.  A timer cannot fire before it is due; when it fires it is removed and sets the
  submission state to idle with an empty message, whatever the state was.
\<close>

theorem timer_is_one_shot_and_never_cancelled:
  "(i < length (requests s) \<longrightarrow>
      status (submission (step s (Settle i r))) = Success \<and>
      timers (step s (Settle i r)) = timers s @ [now s + 5000]) \<and>
   timers (step s (Change f v)) = timers s \<and>
   timers (step s Submit) = timers s \<and>
   (j < length (timers s) \<and> now s < timers s ! j \<longrightarrow> step s (Timeout j) = s) \<and>
   (j < length (timers s) \<and> timers s ! j \<le> now s \<longrightarrow>
      submission (step s (Timeout j)) = \<lparr>status = Idle, message = str ''''\<rparr> \<and>
      timers (step s (Timeout j)) = remove_nth j (timers s) \<and>
      formData (step s (Timeout j)) = formData s \<and>
      errors (step s (Timeout j)) = errors s \<and>
      requests (step s (Timeout j)) = requests s)"
  by (simp add: afterFetch_eq handleInputChange_def handleSubmit_def validateForm_eq
      timerCallback_def)

lemma run_fillForm_again:
  "run (initial\<lparr>submission := \<lparr>status = Success, message = successMessage\<rparr>,
       timers := [5000], now := 1000\<rparr>) fillForm =
     initial\<lparr>formData := validForm, timers := [5000], now := 1000\<rparr>"
  by (simp add: fillForm_def initial_def handleInputChange_def emptyForm_def validForm_def)

lemma resumed_eq:
  "resumed = initial\<lparr>formData := validForm,
     submission := \<lparr>status = Loading, message = str ''''\<rparr>,
     requests := [validForm], timers := [5000], now := 5000\<rparr>"
proof -
  have 1: "run initial (fillForm @ [Submit, Settle 0 (Response True NotJson), Wait 1000]) =
      run waiting [Settle 0 (Response True NotJson), Wait 1000]"
    by (simp add: waiting_def run_append)
  have 2: "run waiting [Settle 0 (Response True NotJson), Wait 1000] =
      initial\<lparr>submission := \<lparr>status = Success, message = successMessage\<rparr>,
        timers := [5000], now := 1000\<rparr>"
    by (simp add: waiting_eq afterFetch_eq remove_nth_def initial_def)
  have 3: "run (initial\<lparr>formData := validForm, timers := [5000], now := 1000\<rparr>)
        [Submit, Wait 4000] =
      initial\<lparr>formData := validForm,
        submission := \<lparr>status = Loading, message = str ''''\<rparr>,
        requests := [validForm], timers := [5000], now := 5000\<rparr>"
    by (simp add: submitDisabled_def handleSubmit_def validateForm_eq validForm_valid
        initial_def)
  have "resumed = run (run (run initial
      (fillForm @ [Submit, Settle 0 (Response True NotJson), Wait 1000])) fillForm)
      [Submit, Wait 4000]"
    unfolding resumed_def run_append ..
  then show ?thesis
    unfolding 1 2 run_fillForm_again 3 .
qed

theorem timer_is_one_shot_and_never_cancelled_witness:
  "timers (step waiting (Settle 0 (Response True NotJson))) = [5000] \<and>
   status (submission (step waiting (Settle 0 (Response True NotJson)))) = Success \<and>
   timers (step resumed (Change Name (str ''Bo''))) = [5000] \<and>
   step (resumed\<lparr>now := 4999\<rparr>) (Timeout 0) = resumed\<lparr>now := 4999\<rparr> \<and>
   submission (step resumed (Timeout 0)) = \<lparr>status = Idle, message = []\<rparr> \<and>
   timers (step resumed (Timeout 0)) = []"
proof -
  have w: "0 < length (requests waiting)" "timers waiting = []" "now waiting = 0"
    by (simp_all add: waiting_eq initial_def)
  have r: "0 < length (timers resumed)" "timers resumed ! 0 = 5000" "now resumed = 5000"
    "timers resumed = [5000]"
    by (simp_all add: resumed_eq)
  from timer_is_one_shot_and_never_cancelled [of 0 waiting "Response True NotJson"] w
  have "timers (step waiting (Settle 0 (Response True NotJson))) = [5000] \<and>
    status (submission (step waiting (Settle 0 (Response True NotJson)))) = Success"
    by simp
  moreover from timer_is_one_shot_and_never_cancelled [of _ resumed _ Name "str ''Bo''"] r
  have "timers (step resumed (Change Name (str ''Bo''))) = [5000]"
    by simp
  moreover from timer_is_one_shot_and_never_cancelled [of _ "resumed\<lparr>now := 4999\<rparr>" _ _ _ 0] r
  have "step (resumed\<lparr>now := 4999\<rparr>) (Timeout 0) = resumed\<lparr>now := 4999\<rparr>"
    by simp
  moreover from timer_is_one_shot_and_never_cancelled [of _ resumed _ _ _ 0] r
  have "submission (step resumed (Timeout 0)) = \<lparr>status = Idle, message = []\<rparr> \<and>
    timers (step resumed (Timeout 0)) = []"
    by (simp add: remove_nth_def str_def)
  ultimately show ?thesis by simp
qed

text \<open>
  C5, as the claim has it, fails: the timer of the first success is still pending after
  the user has typed a second message and sent it, and when it fires it throws the
  controller from loading back to idle while the second request is still outstanding.
\<close>

theorem stale_timer_counterexample:
  "timers resumed = [5000] \<and> now resumed = 5000 \<and>
   status (submission resumed) = Loading \<and> requests resumed = [validForm] \<and>
   submission (step resumed (Timeout 0)) = \<lparr>status = Idle, message = []\<rparr> \<and>
   requests (step resumed (Timeout 0)) = [validForm]"
  by (simp add: resumed_eq timerCallback_def remove_nth_def str_def)

section \<open>A request that fails\<close>

text \<open>
  C1 says that a failed request leads to the error state, with the reason as message and
  the form contents kept.  The code does not: for a valid form that was sent, a response
  that is not OK and carries the message "Server down" makes the try block throw that
  message, and the catch block then shows the success message and empties the form; so
  does a rejected fetch.
\<close>

theorem failed_request_is_shown_as_success:
  "status (submission waiting) = Loading \<and> formData waiting = validForm \<and>
   tryBlock (Response False (Json (Some (str ''Server down'')))) waiting =
     Inl (ErrorMsg (str ''Server down'')) \<and>
   submission (step waiting (Settle 0 (Response False (Json (Some (str ''Server down'')))))) =
     \<lparr>status = Success, message = successMessage\<rparr> \<and>
   formData (step waiting (Settle 0 (Response False (Json (Some (str ''Server down'')))))) =
     emptyForm \<and>
   submission (step waiting (Settle 0 Rejected)) =
     \<lparr>status = Success, message = successMessage\<rparr> \<and>
   formData (step waiting (Settle 0 Rejected)) = emptyForm"
  by (simp add: waiting_eq afterFetch_def catchBlock_def str_def)

text \<open>The error status is never entered at all.\<close>

lemma step_never_Error:
  "status (submission s) \<noteq> Error \<Longrightarrow> status (submission (step s e)) \<noteq> Error"
  by (cases e)
    (simp_all add: handleInputChange_def handleSubmit_def validateForm_eq afterFetch_eq
      timerCallback_def)

lemma never_Error: "status (submission (run initial es)) \<noteq> Error"
proof -
  have "status (submission s) \<noteq> Error \<Longrightarrow> status (submission (run s es)) \<noteq> Error" for s
    by (induction es arbitrary: s) (simp_all add: step_never_Error)
  then show ?thesis by (simp add: initial_def)
qed

section \<open>The theme on mount\<close>

text \<open>
  C9, as the code has it: in a browser, when the stored preference is absent or the empty
  string, the effect sets the flag to dark, puts the dark marker (and not the light one) on
  the document root and stores the literal "dark"; when a non-empty preference is stored,
  the flag is true iff the stored string is "dark", the marker of that value is the one on
  the root, and the storage is not written.  Where there is no window the effect does
  nothing.
\<close>

theorem initialize_theme:
  "(localStorage t (str ''theme-preference'') = None \<or>
    localStorage t (str ''theme-preference'') = Some [] \<longrightarrow>
      isDarkMode (initialize True t) \<and>
      localStorage (initialize True t) =
        (localStorage t)(str ''theme-preference'' \<mapsto> str ''dark'') \<and>
      str ''dark'' \<in> classList (initialize True t) \<and>
      str ''light'' \<notin> classList (initialize True t)) \<and>
   (localStorage t (str ''theme-preference'') = Some v \<and> v \<noteq> [] \<longrightarrow>
      (isDarkMode (initialize True t) \<longleftrightarrow> v = str ''dark'') \<and>
      localStorage (initialize True t) = localStorage t \<and>
      (str ''dark'' \<in> classList (initialize True t) \<longleftrightarrow> v = str ''dark'') \<and>
      (str ''light'' \<in> classList (initialize True t) \<longleftrightarrow> v \<noteq> str ''dark'')) \<and>
   initialize False t = t"
  by (auto simp: initialize_def applyThemeToDOM_def Let_def str_def)

theorem initialize_theme_witness:
  "isDarkMode (initialize True firstVisit) \<and>
   localStorage (initialize True firstVisit) (str ''theme-preference'') = Some (str ''dark'') \<and>
   str ''dark'' \<in> classList (initialize True firstVisit) \<and>
   \<not> isDarkMode (initialize True lightPreference) \<and>
   localStorage (initialize True lightPreference) = localStorage lightPreference \<and>
   str ''light'' \<in> classList (initialize True lightPreference)"
proof -
  have f: "localStorage firstVisit (str ''theme-preference'') = None"
    by (simp add: firstVisit_def)
  have l: "localStorage lightPreference (str ''theme-preference'') = Some (str ''light'')"
    "str ''light'' \<noteq> []" "str ''light'' \<noteq> str ''dark''"
    by (simp_all add: lightPreference_def str_def)
  from initialize_theme [of firstVisit] f
  have "isDarkMode (initialize True firstVisit) \<and>
    localStorage (initialize True firstVisit) (str ''theme-preference'') = Some (str ''dark'') \<and>
    str ''dark'' \<in> classList (initialize True firstVisit)"
    by simp
  moreover from initialize_theme [of lightPreference "str ''light''"] l
  have "\<not> isDarkMode (initialize True lightPreference) \<and>
    localStorage (initialize True lightPreference) = localStorage lightPreference \<and>
    str ''light'' \<in> classList (initialize True lightPreference)"
    by simp
  ultimately show ?thesis by simp
qed

text \<open>
  C9, as the claim has it, fails: a stored preference that is the empty string exists,
  but the effect overwrites it with "dark" and sets the dark flag although the stored
  string is not "dark".
\<close>

theorem initialize_theme_counterexample:
  "localStorage emptyPreference (str ''theme-preference'') = Some [] \<and>
   localStorage (initialize True emptyPreference) (str ''theme-preference'') =
     Some (str ''dark'') \<and>
   localStorage (initialize True emptyPreference) \<noteq> localStorage emptyPreference \<and>
   isDarkMode (initialize True emptyPreference) \<and> [] \<noteq> str ''dark''"
proof -
  have a: "localStorage emptyPreference (str ''theme-preference'') = Some []"
    by (simp add: emptyPreference_def str_def)
  have b: "localStorage (initialize True emptyPreference) (str ''theme-preference'') =
      Some (str ''dark'')"
    by (simp add: initialize_def applyThemeToDOM_def Let_def emptyPreference_def str_def)
  have c: "isDarkMode (initialize True emptyPreference)"
    by (simp add: initialize_def applyThemeToDOM_def Let_def emptyPreference_def str_def)
  have d: "[] \<noteq> str ''dark''"
    by (simp add: str_def)
  from a b d have "localStorage (initialize True emptyPreference) \<noteq> localStorage emptyPreference"
    by (metis option.inject)
  with a b c d show ?thesis by simp
qed

end
